theory Spec2Isabelle
  imports Complex_Main "HOL-Library.Sublist" "HOL-Library.AList"
begin

section \<open>Python values used by the library\<close>

text \<open>
  The exceptions the modelled code can raise. \<open>NotFound\<close> is the lookup error of a
  registry; the others are Python's own.
\<close>

datatype error =
    KeyError string
  | KeyErrorInt int
  | AttributeError string
  | NotFound string
  | ValueError
  | TypeError
  | AssertionError
  | FileNotFoundError string
  | OSError string
  | RuntimeError string
  | EOFError
  | SystemExit
  | AlreadyRegistered string

text \<open>
  How a call of an effectful function ends: it returns, or an exception leaves it.
  \<^verbatim>\<open>exit()\<close> raises \<^verbatim>\<open>SystemExit\<close>, which passes through the callers and
  ends the process unless one of them catches it.
\<close>

datatype 'a outcome = Returned 'a | Raised error

subsection \<open>Strings\<close>

text \<open>
  Strings are byte strings, as \<^typ>\<open>string\<close> is; the functions below are Python's on
  ASCII text. \<^verbatim>\<open>a in n\<close> (\<^verbatim>\<open>n.__contains__(a)\<close>) is the substring test,
  \<^verbatim>\<open>s.startswith(p)\<close> and \<^verbatim>\<open>s.endswith(p)\<close> the prefix and suffix tests.
\<close>

definition str_contains :: "string \<Rightarrow> string \<Rightarrow> bool" where
  "str_contains n a = sublist a n"

definition startswith :: "string \<Rightarrow> string \<Rightarrow> bool" where
  "startswith s p = prefix p s"

definition endswith :: "string \<Rightarrow> string \<Rightarrow> bool" where
  "endswith s p = suffix p s"

text \<open>
  \<^verbatim>\<open>str.isspace\<close> on one ASCII character: tab, line feed, vertical tab, form feed,
  carriage return, the four separators 0x1C to 0x1F, and the space.
\<close>

definition isspace :: "char \<Rightarrow> bool" where
  "isspace c = (c \<in> set [CHR 0x09, CHR 0x0A, CHR 0x0B, CHR 0x0C, CHR 0x0D,
                          CHR 0x1C, CHR 0x1D, CHR 0x1E, CHR 0x1F, CHR 0x20])"

text \<open>
  \<^verbatim>\<open>s.split()\<close>: the maximal runs of characters that are not white space.
  The first argument is the run read so far.
\<close>

fun split_runs :: "string \<Rightarrow> string \<Rightarrow> string list" where
  "split_runs cur [] = (if cur = [] then [] else [cur])"
| "split_runs cur (c # cs) =
     (if isspace c then (if cur = [] then split_runs [] cs else cur # split_runs [] cs)
      else split_runs (cur @ [c]) cs)"

definition str_split :: "string \<Rightarrow> string list" where
  "str_split s = split_runs [] s"

text \<open>
  \<^verbatim>\<open>s.split(sep)\<close> for a separator of one character: the pieces between the
  separators, empty ones included; the result is never empty.
\<close>

fun split_at :: "char \<Rightarrow> string \<Rightarrow> string \<Rightarrow> string list" where
  "split_at sep cur [] = [cur]"
| "split_at sep cur (c # cs) =
     (if c = sep then cur # split_at sep [] cs else split_at sep (cur @ [c]) cs)"

definition str_split_sep :: "string \<Rightarrow> char \<Rightarrow> string list" where
  "str_split_sep s sep = split_at sep [] s"

text \<open>
  \<^verbatim>\<open>int(s)\<close> in base ten: white space around the literal is dropped, one sign is
  allowed, and between two digits there may be one underscore. Anything else is a
  \<^verbatim>\<open>ValueError\<close>. The white space that \<^verbatim>\<open>int\<close> drops from an ASCII string is
  C's: tab, line feed, vertical tab, form feed, carriage return and the space, without
  the separators 0x1C to 0x1F.
\<close>

definition int_space :: "char \<Rightarrow> bool" where
  "int_space c = (c \<in> set [CHR 0x09, CHR 0x0A, CHR 0x0B, CHR 0x0C, CHR 0x0D, CHR 0x20])"

definition digit_of :: "char \<Rightarrow> nat option" where
  "digit_of c =
     (let k = (of_char c :: nat) in if 48 \<le> k \<and> k \<le> 57 then Some (k - 48) else None)"

fun digits :: "nat \<Rightarrow> string \<Rightarrow> nat option" where
  "digits acc [] = Some acc"
| "digits acc [c] =
     (case digit_of c of None \<Rightarrow> None | Some k \<Rightarrow> Some (10 * acc + k))"
| "digits acc (c # d # ds) =
     (if c = CHR ''_'' then
        (case digit_of d of None \<Rightarrow> None | Some k \<Rightarrow> digits (10 * acc + k) ds)
      else
        (case digit_of c of None \<Rightarrow> None | Some k \<Rightarrow> digits (10 * acc + k) (d # ds)))"

definition parse_digits :: "string \<Rightarrow> nat option" where
  "parse_digits s =
     (case s of
        [] \<Rightarrow> None
      | c # cs \<Rightarrow> (case digit_of c of None \<Rightarrow> None | Some k \<Rightarrow> digits k cs))"

definition int_strip :: "string \<Rightarrow> string" where
  "int_strip s = rev (dropWhile int_space (rev (dropWhile int_space s)))"

definition py_int :: "string \<Rightarrow> error + int" where
  "py_int s =
     (let t = int_strip s;
          neg = (t \<noteq> [] \<and> hd t = CHR ''-'');
          body = (if t \<noteq> [] \<and> (hd t = CHR ''-'' \<or> hd t = CHR ''+'') then tl t else t)
      in case parse_digits body of
           None \<Rightarrow> Inl ValueError
         | Some n \<Rightarrow> Inr (if neg then - int n else int n))"

subsection \<open>Paths\<close>

text \<open>
  \<^verbatim>\<open>posixpath.join(a, *p)\<close>: a component that starts with a slash replaces what was
  joined so far; otherwise it is appended, after a slash unless the path so far is
  empty or ends with one.
\<close>

definition join_step :: "string \<Rightarrow> string \<Rightarrow> string" where
  "join_step path b =
     (if startswith b ''/'' then b
      else if path = [] \<or> endswith path ''/'' then path @ b
      else path @ ''/'' @ b)"

definition op_join :: "string \<Rightarrow> string list \<Rightarrow> string" where
  "op_join a p = foldl join_step a p"



section \<open>Registries\<close>

text \<open>
  Modelled from the spec: the registries (\<^verbatim>\<open>get_backbone\<close>, \<^verbatim>\<open>get_encoder\<close>,
  \<^verbatim>\<open>get_neck\<close>, \<^verbatim>\<open>get_head\<close>, \<^verbatim>\<open>get_criterion\<close>, \<^verbatim>\<open>get_model\<close>,
  \<^verbatim>\<open>get_optimizer\<close> and their registration decorators) are imported by
  \<^verbatim>\<open>build.py\<close> from modules that are not among the source files. The spec describes
  one registry per category as a mapping from a name to a constructor, looked up by the
  exact name: \<^verbatim>\<open>get(name)\<close> fails with a NotFound error if the name is absent, and
  \<^verbatim>\<open>register(name, constructor)\<close> fails if the name is already present, or silently
  overwrites (the spec leaves this open, so the policy is a parameter here).
\<close>

type_synonym 'c registry = "string \<rightharpoonup> 'c"

datatype policy = Reject | Overwrite

definition get :: "'c registry \<Rightarrow> string \<Rightarrow> error + 'c" where
  "get reg name = (case reg name of None \<Rightarrow> Inl (NotFound name) | Some c \<Rightarrow> Inr c)"

definition register :: "policy \<Rightarrow> string \<Rightarrow> 'c \<Rightarrow> 'c registry \<Rightarrow> error + 'c registry" where
  "register pol name c reg =
     (if pol = Reject \<and> reg name \<noteq> None then Inl (AlreadyRegistered name)
      else Inr (reg(name \<mapsto> c)))"

text \<open>The registrations made at process start, in their order, from the empty registry.\<close>

fun register_all :: "policy \<Rightarrow> (string \<times> 'c) list \<Rightarrow> 'c registry \<Rightarrow> error + 'c registry" where
  "register_all pol [] reg = Inr reg"
| "register_all pol ((name, c) # rest) reg =
     (case register pol name c reg of
        Inl e \<Rightarrow> Inl e
      | Inr reg' \<Rightarrow> register_all pol rest reg')"

section \<open>The optimizer builder\<close>

text \<open>
  A parameter is a tensor with its \<^verbatim>\<open>requires_grad\<close> flag. A module lists its
  parameters under their qualified names; \<^verbatim>\<open>nn.DataParallel\<close> and
  \<^verbatim>\<open>DistributedDataParallel\<close> hold the wrapped module as their attribute
  \<^verbatim>\<open>module\<close>, so their own parameter names carry the prefix \<^verbatim>\<open>module.\<close>.
\<close>

record 't param =
  tensor :: 't
  requires_grad :: bool

datatype 't model =
    Module "(string \<times> 't param) list"
  | DataParallel "'t model"
  | DistributedDataParallel "'t model"

fun named_parameters :: "'t model \<Rightarrow> (string \<times> 't param) list" where
  "named_parameters (Module nps) = nps"
| "named_parameters (DataParallel m) =
     map (\<lambda>(n, p). (''module.'' @ n, p)) (named_parameters m)"
| "named_parameters (DistributedDataParallel m) =
     map (\<lambda>(n, p). (''module.'' @ n, p)) (named_parameters m)"

text \<open>Lines 169 to 172 of \<^verbatim>\<open>build.py\<close>: \<^verbatim>\<open>m\<close> is the wrapped module of a wrapper.\<close>

fun unwrap :: "'t model \<Rightarrow> 't model" where
  "unwrap (DataParallel m) = m"
| "unwrap (DistributedDataParallel m) = m"
| "unwrap (Module nps) = Module nps"

text \<open>
  The optimizer's config node: \<^verbatim>\<open>NAME\<close>, the node \<^verbatim>\<open>LR\<close> of learning rates by
  key, and \<^verbatim>\<open>ARGS\<close>. A rate is passed on as it is, so its type is left open.
  A parameter group is the dictionary \<^verbatim>\<open>{'params': p, 'lr': rate}\<close>.
\<close>

record ('r, 'a) optim_cfg =
  OPTIMIZER_NAME :: string
  OPTIMIZER_LR :: "string \<rightharpoonup> 'r"
  OPTIMIZER_ARGS :: 'a

record ('t, 'r) group =
  group_params :: "'t param"
  group_lr :: 'r

definition model_attrs :: "string list" where
  "model_attrs = [''backbone'', ''encoder'', ''necks'', ''heads'']"

text \<open>
  The inner loop, lines 176 to 182, for the parameter \<open>p\<close> named \<open>n\<close>: the state is
  the flag \<^verbatim>\<open>is_other\<close> and the list \<^verbatim>\<open>params\<close>. \<^verbatim>\<open>optim_cfg.LR[attr]\<close> raises
  \<^verbatim>\<open>KeyError\<close> for a key the node does not have.
\<close>

fun attr_loop ::
  "(string \<rightharpoonup> 'r) \<Rightarrow> string \<Rightarrow> 't param \<Rightarrow> string list \<Rightarrow> bool \<times> ('t, 'r) group list
     \<Rightarrow> error + bool \<times> ('t, 'r) group list" where
  "attr_loop lr n p [] st = Inr st"
| "attr_loop lr n p (attr # attrs) (is_other, params) =
     (if str_contains n attr then
        (case lr attr of
           None \<Rightarrow> Inl (KeyError attr)
         | Some r \<Rightarrow>
             attr_loop lr n p attrs (False, params @ [\<lparr>group_params = p, group_lr = r\<rparr>]))
      else attr_loop lr n p attrs (is_other, params))"

text \<open>The body of the outer loop, lines 174 to 188, for one named parameter.\<close>

definition param_step ::
  "(string \<rightharpoonup> 'r) \<Rightarrow> string \<times> 't param \<Rightarrow> ('t, 'r) group list \<Rightarrow> error + ('t, 'r) group list" where
  "param_step lr np params =
     (if requires_grad (snd np) then
        (case attr_loop lr (fst np) (snd np) model_attrs (True, params) of
           Inl e \<Rightarrow> Inl e
         | Inr (is_other, params') \<Rightarrow>
             if is_other then
               (case lr ''base'' of
                  None \<Rightarrow> Inl (KeyError ''base'')
                | Some r \<Rightarrow> Inr (params' @ [\<lparr>group_params = snd np, group_lr = r\<rparr>]))
             else Inr params')
      else Inr params)"

fun param_loop ::
  "(string \<rightharpoonup> 'r) \<Rightarrow> (string \<times> 't param) list \<Rightarrow> ('t, 'r) group list
     \<Rightarrow> error + ('t, 'r) group list" where
  "param_loop lr [] params = Inr params"
| "param_loop lr (np # nps) params =
     (case param_step lr np params of
        Inl e \<Rightarrow> Inl e
      | Inr params' \<Rightarrow> param_loop lr nps params')"

text \<open>Lines 148 to 188: the parameter-group list \<^verbatim>\<open>params\<close> of \<^verbatim>\<open>build_optimizer\<close>.\<close>

definition param_groups ::
  "('r, 'a) optim_cfg \<Rightarrow> 't model \<Rightarrow> error + ('t, 'r) group list" where
  "param_groups optim_cfg model =
     param_loop (OPTIMIZER_LR optim_cfg) (named_parameters (unwrap model)) []"

text \<open>
  For the proofs: the keys of \<^verbatim>\<open>LR\<close> that the loop body reads for a parameter named
  \<open>n\<close>, in the order in which it reads them.
\<close>

definition lr_keys :: "string \<Rightarrow> string list" where
  "lr_keys n =
     (if filter (str_contains n) model_attrs = [] then [''base'']
      else filter (str_contains n) model_attrs)"

text \<open>
  Line 196. The registry of optimizers and \<^verbatim>\<open>turn_list_to_dict\<close> (\<open>tltd\<close>) are
  parameters: they are imported from modules outside the source files. Python
  evaluates the callee, then the arguments from left to right;
  \<^verbatim>\<open>optim_cfg.LR.base\<close> is an attribute access and raises \<^verbatim>\<open>AttributeError\<close> when
  the key is absent.
\<close>

definition build_optimizer ::
  "(('t, 'r) group list \<Rightarrow> 'r \<Rightarrow> 'd \<Rightarrow> error + 'o) registry \<Rightarrow> ('a \<Rightarrow> 'd)
     \<Rightarrow> ('r, 'a) optim_cfg \<Rightarrow> 't model \<Rightarrow> error + 'o" where
  "build_optimizer optimizers tltd optim_cfg model =
     (case param_groups optim_cfg model of
        Inl e \<Rightarrow> Inl e
      | Inr params \<Rightarrow>
          (case get optimizers (OPTIMIZER_NAME optim_cfg) of
             Inl e \<Rightarrow> Inl e
           | Inr optimizer_builder \<Rightarrow>
               (case OPTIMIZER_LR optim_cfg ''base'' of
                  None \<Rightarrow> Inl (AttributeError ''base'')
                | Some base \<Rightarrow> optimizer_builder params base (tltd (OPTIMIZER_ARGS optim_cfg)))))"

section \<open>The model builder\<close>

text \<open>
  The model's config node, with the sub-nodes \<^verbatim>\<open>BACKBONE\<close>, \<^verbatim>\<open>ENCODER\<close>,
  \<^verbatim>\<open>NECKS\<close> and \<^verbatim>\<open>HEADS\<close> flattened into their \<^verbatim>\<open>NAME\<close> and \<^verbatim>\<open>ARGS\<close>.
  An item of \<^verbatim>\<open>CRITERIONS\<close> has the keys \<^verbatim>\<open>name\<close>, \<^verbatim>\<open>args\<close> and \<^verbatim>\<open>w\<close>.
\<close>

record ('a, 'w) criterion_cfg =
  item_name :: string
  item_args :: 'a
  item_w :: 'w

record ('a, 'w) model_cfg =
  MODEL_NAME :: string
  BACKBONE_NAME :: string
  BACKBONE_ARGS :: 'a
  ENCODER_NAME :: string
  ENCODER_ARGS :: 'a
  NECKS_NAME :: string
  NECKS_ARGS :: 'a
  HEADS_NAME :: string
  HEADS_ARGS :: 'a
  CLASS_NUM :: int
  CRITERIONS :: "('a, 'w) criterion_cfg list"

text \<open>The value \<^verbatim>\<open>{"fn": criterion, "w": weight}\<close> stored under a criterion's name.\<close>

record ('o, 'w) criterion =
  crit_fn :: 'o
  crit_w :: 'w

text \<open>
  One registry per category. A constructor may raise, so it returns a sum. The
  components are objects of one type \<open>'o\<close>; the model is of type \<open>'m\<close>.
\<close>

record ('a, 'w, 'd, 'o, 'm) registries =
  backbone_registry :: "('d \<Rightarrow> error + 'o) registry"
  encoder_registry :: "('d \<Rightarrow> error + 'o) registry"
  neck_registry :: "('d \<Rightarrow> error + 'o) registry"
  head_registry :: "(int \<Rightarrow> 'd \<Rightarrow> error + 'o) registry"
  criterion_registry :: "('d \<Rightarrow> error + 'o) registry"
  model_registry ::
    "(('a, 'w) model_cfg \<Rightarrow> 'o \<Rightarrow> 'o option \<Rightarrow> 'o option \<Rightarrow> 'o
        \<Rightarrow> (string \<times> ('o, 'w) criterion) list \<Rightarrow> error + 'm) registry"

text \<open>\<^verbatim>\<open>build_criterion\<close>, lines 200 to 211.\<close>

definition build_criterion ::
  "('a, 'w, 'd, 'o, 'm) registries \<Rightarrow> ('a \<Rightarrow> 'd) \<Rightarrow> ('a, 'w) criterion_cfg \<Rightarrow> error + 'o" where
  "build_criterion R tltd criterion_cfg =
     (case get (criterion_registry R) (item_name criterion_cfg) of
        Inl e \<Rightarrow> Inl e
      | Inr criterion_builder \<Rightarrow> criterion_builder (tltd (item_args criterion_cfg)))"

text \<open>
  Lines 65 to 67: \<^verbatim>\<open>criterions.update\<close> replaces the value of a name already in
  the dictionary and appends a new name, as \<^const>\<open>AList.update\<close> does.
\<close>

fun criterions_loop ::
  "('a, 'w, 'd, 'o, 'm) registries \<Rightarrow> ('a \<Rightarrow> 'd) \<Rightarrow> ('a, 'w) criterion_cfg list
     \<Rightarrow> (string \<times> ('o, 'w) criterion) list \<Rightarrow> error + (string \<times> ('o, 'w) criterion) list" where
  "criterions_loop R tltd [] criterions = Inr criterions"
| "criterions_loop R tltd (item # items) criterions =
     (case build_criterion R tltd item of
        Inl e \<Rightarrow> Inl e
      | Inr criterion_fn \<Rightarrow>
          criterions_loop R tltd items
            (AList.update (item_name item) \<lparr>crit_fn = criterion_fn, crit_w = item_w item\<rparr>
               criterions))"

text \<open>Lines 50 to 54: the encoder, or \<^verbatim>\<open>None\<close> when its name is empty.\<close>

definition build_encoder ::
  "('a, 'w, 'd, 'o, 'm) registries \<Rightarrow> ('a \<Rightarrow> 'd) \<Rightarrow> ('a, 'w) model_cfg \<Rightarrow> error + 'o option" where
  "build_encoder R tltd model_cfg =
     (if ENCODER_NAME model_cfg \<noteq> [] then
        (case get (encoder_registry R) (ENCODER_NAME model_cfg) of
           Inl e \<Rightarrow> Inl e
         | Inr encoder_builder \<Rightarrow>
             (case encoder_builder (tltd (ENCODER_ARGS model_cfg)) of
                Inl e \<Rightarrow> Inl e
              | Inr encoder \<Rightarrow> Inr (Some encoder)))
      else Inr None)"

text \<open>Lines 56 to 60: the neck, by the same rule.\<close>

definition build_necks ::
  "('a, 'w, 'd, 'o, 'm) registries \<Rightarrow> ('a \<Rightarrow> 'd) \<Rightarrow> ('a, 'w) model_cfg \<Rightarrow> error + 'o option" where
  "build_necks R tltd model_cfg =
     (if NECKS_NAME model_cfg \<noteq> [] then
        (case get (neck_registry R) (NECKS_NAME model_cfg) of
           Inl e \<Rightarrow> Inl e
         | Inr neck_builder \<Rightarrow>
             (case neck_builder (tltd (NECKS_ARGS model_cfg)) of
                Inl e \<Rightarrow> Inl e
              | Inr necks \<Rightarrow> Inr (Some necks)))
      else Inr None)"

text \<open>\<^verbatim>\<open>build_model\<close>, lines 38 to 72, in the order of its statements.\<close>

definition build_model ::
  "('a, 'w, 'd, 'o, 'm) registries \<Rightarrow> ('a \<Rightarrow> 'd) \<Rightarrow> ('a, 'w) model_cfg \<Rightarrow> error + 'm" where
  "build_model R tltd model_cfg =
     (case get (backbone_registry R) (BACKBONE_NAME model_cfg) of
        Inl e \<Rightarrow> Inl e
      | Inr backbone_builder \<Rightarrow>
     (case backbone_builder (tltd (BACKBONE_ARGS model_cfg)) of
        Inl e \<Rightarrow> Inl e
      | Inr backbone \<Rightarrow>
     (case build_encoder R tltd model_cfg of
        Inl e \<Rightarrow> Inl e
      | Inr encoder \<Rightarrow>
     (case build_necks R tltd model_cfg of
        Inl e \<Rightarrow> Inl e
      | Inr necks \<Rightarrow>
     (case get (head_registry R) (HEADS_NAME model_cfg) of
        Inl e \<Rightarrow> Inl e
      | Inr head_builder \<Rightarrow>
     (case head_builder (CLASS_NUM model_cfg) (tltd (HEADS_ARGS model_cfg)) of
        Inl e \<Rightarrow> Inl e
      | Inr heads \<Rightarrow>
     (case criterions_loop R tltd (CRITERIONS model_cfg) [] of
        Inl e \<Rightarrow> Inl e
      | Inr criterions \<Rightarrow>
     (case get (model_registry R) (MODEL_NAME model_cfg) of
        Inl e \<Rightarrow> Inl e
      | Inr model_builder \<Rightarrow>
          model_builder model_cfg backbone encoder necks heads criterions))))))))"

section \<open>The world outside the program\<close>

text \<open>
  The file system as the program finds it, and the calls the program makes to the
  operating system, to \<^verbatim>\<open>torch\<close>, \<^verbatim>\<open>wget\<close>, \<^verbatim>\<open>tarfile\<close> and \<^verbatim>\<open>gzip\<close>, to the
  logger and to \<^verbatim>\<open>print\<close>, oldest first. \<open>existing\<close> holds the paths for which
  \<^verbatim>\<open>os.path.exists\<close> is true, \<open>mkdir_fails\<close> the paths at which \<^verbatim>\<open>os.mkdir\<close>
  raises (a missing parent, a permission), \<open>text_files\<close> the lines that
  \<^verbatim>\<open>readlines\<close> returns for a readable text file, and \<open>listing\<close> what
  \<^verbatim>\<open>os.listdir\<close> returns for a directory. \<open>save_error\<close> gives the exception
  that \<^verbatim>\<open>torch.save\<close> raises at a path where the file cannot be written (a missing
  parent directory, a permission), \<open>gzip_error\<close> the exception that reading the
  gzip stream of a file raises (data that is not gzip, a truncated stream), and
  \<open>checkpoints\<close> holds the states that \<^verbatim>\<open>torch.save\<close> has written, by path.
  A call is recorded with its arguments, whether it returns or raises. An exception
  raised inside \<^verbatim>\<open>wget.download\<close>, \<^verbatim>\<open>extractall\<close> or the logger is not
  modelled.
\<close>

datatype 's call =
    PathExists string
  | Mkdir string
  | TorchSave 's string
  | LoggerCall string
  | LoggerClose
  | Print string
  | WgetDownload string string
  | TarExtractAll string string
  | GzipOpen string
  | OpenWrite string

record 's world =
  existing :: "string set"
  mkdir_fails :: "string set"
  save_error :: "string \<rightharpoonup> error"
  gzip_error :: "string \<rightharpoonup> error"
  checkpoints :: "string \<rightharpoonup> 's"
  text_files :: "string \<rightharpoonup> string list"
  listing :: "string \<rightharpoonup> string list"
  calls :: "'s call list"

definition record_call :: "'s call \<Rightarrow> 's world \<Rightarrow> 's world" where
  "record_call c w = w\<lparr>calls := calls w @ [c]\<rparr>"

definition os_path_exists :: "string \<Rightarrow> 's world \<Rightarrow> bool \<times> 's world" where
  "os_path_exists p w = (p \<in> existing w, record_call (PathExists p) w)"

definition os_mkdir :: "string \<Rightarrow> 's world \<Rightarrow> unit outcome \<times> 's world" where
  "os_mkdir p w =
     (if p \<in> existing w \<or> p \<in> mkdir_fails w then (Raised (OSError p), record_call (Mkdir p) w)
      else (Returned (), record_call (Mkdir p) (w\<lparr>existing := insert p (existing w)\<rparr>)))"

definition torch_save :: "'s \<Rightarrow> string \<Rightarrow> 's world \<Rightarrow> unit outcome \<times> 's world" where
  "torch_save state_dict p w =
     (case save_error w p of
        Some e \<Rightarrow> (Raised e, record_call (TorchSave state_dict p) w)
      | None \<Rightarrow>
          (Returned (),
           record_call (TorchSave state_dict p)
             (w\<lparr>existing := insert p (existing w),
               checkpoints := (checkpoints w)(p \<mapsto> state_dict)\<rparr>)))"

definition logger_call :: "string \<Rightarrow> 's world \<Rightarrow> 's world" where
  "logger_call msg w = record_call (LoggerCall msg) w"

definition logger_close :: "'s world \<Rightarrow> 's world" where
  "logger_close w = record_call LoggerClose w"




definition open_readlines :: "'s world \<Rightarrow> string \<Rightarrow> error + string list" where
  "open_readlines w p =
     (case text_files w p of None \<Rightarrow> Inl (FileNotFoundError p) | Some ls \<Rightarrow> Inr ls)"

definition os_listdir :: "'s world \<Rightarrow> string \<Rightarrow> error + string list" where
  "os_listdir w p =
     (case listing w p of None \<Rightarrow> Inl (FileNotFoundError p) | Some names \<Rightarrow> Inr names)"

section \<open>Saving a checkpoint\<close>

text \<open>The node \<^verbatim>\<open>cfg.WEIGHT\<close> with its fields \<^verbatim>\<open>SAVE_DIR\<close> and \<^verbatim>\<open>NAME\<close>.\<close>

record weight_cfg =
  WEIGHT_SAVE_DIR :: string
  WEIGHT_NAME :: string

text \<open>Lines 15 to 17 of \<^verbatim>\<open>save_model.py\<close>; \<open>state_dict\<close> is \<^verbatim>\<open>model.state_dict()\<close>.\<close>

definition write_checkpoint :: "weight_cfg \<Rightarrow> 's \<Rightarrow> 's world \<Rightarrow> unit outcome \<times> 's world" where
  "write_checkpoint cfg state_dict w =
     (let save_path = op_join (WEIGHT_SAVE_DIR cfg) [WEIGHT_NAME cfg] in
      case torch_save state_dict save_path w of
        (Returned u, w1) \<Rightarrow>
          (Returned (), logger_call (''Saving checkpoint to '' @ save_path) w1)
      | (r, w1) \<Rightarrow> (r, w1))"

text \<open>
  \<^verbatim>\<open>save_model\<close>. A bare \<^verbatim>\<open>except:\<close> catches whatever \<^verbatim>\<open>os.mkdir\<close> raises;
  the handler ends with \<^verbatim>\<open>exit()\<close>, which raises \<^verbatim>\<open>SystemExit\<close>.
\<close>

definition save_model :: "weight_cfg \<Rightarrow> 's \<Rightarrow> 's world \<Rightarrow> unit outcome \<times> 's world" where
  "save_model cfg state_dict w =
     (if WEIGHT_NAME cfg \<noteq> [] then
        (case os_path_exists (WEIGHT_SAVE_DIR cfg) w of
           (present, w1) \<Rightarrow>
             if \<not> present then
               (case os_mkdir (WEIGHT_SAVE_DIR cfg) w1 of
                  (Returned u, w2) \<Rightarrow> write_checkpoint cfg state_dict w2
                | (_, w2) \<Rightarrow>
                    (Raised SystemExit,
                     logger_close
                       (logger_call (''Cannot create save dir under '' @ WEIGHT_SAVE_DIR cfg) w2)))
             else write_checkpoint cfg state_dict w1)
      else (Returned (), w))"

section \<open>The CUB-200-2011 dataset\<close>



definition annotation_file :: string where
  "annotation_file = ''CUB_200_2011/CUB_200_2011/classes.txt''"

definition image_dir :: string where
  "image_dir = ''CUB_200_2011/CUB_200_2011/images/''"

definition split_file :: string where
  "split_file = ''CUB_200_2011/CUB_200_2011/train_test_split.txt''"

definition images_list_file :: string where
  "images_list_file = ''CUB_200_2011/CUB_200_2011/images.txt''"

text \<open>
  The first loop of \<^verbatim>\<open>_load_samples\<close>, lines 101 to 104. Unpacking
  \<^verbatim>\<open>line.split()\<close> into two names raises \<^verbatim>\<open>ValueError\<close> unless the line has
  exactly two fields.
\<close>

fun split_loop :: "string \<Rightarrow> string list \<Rightarrow> string list \<Rightarrow> error + string list" where
  "split_loop mode [] image_ids = Inr image_ids"
| "split_loop mode (line # lines) image_ids =
     (case str_split line of
        [image_id, is_train] \<Rightarrow>
          split_loop mode lines (if mode = is_train then image_ids @ [image_id] else image_ids)
      | _ \<Rightarrow> Inl ValueError)"

text \<open>The second loop, lines 109 to 112.\<close>

fun path_loop ::
  "string \<Rightarrow> string list \<Rightarrow> string list \<Rightarrow> string list \<Rightarrow> error + string list" where
  "path_loop root_dir image_ids [] samples = Inr samples"
| "path_loop root_dir image_ids (line # lines) samples =
     (case str_split line of
        [image_id, image_path] \<Rightarrow>
          path_loop root_dir image_ids lines
            (if image_id \<in> set image_ids
             then samples @ [op_join root_dir [image_dir, image_path]]
             else samples)
      | _ \<Rightarrow> Inl ValueError)"

text \<open>
  \<^verbatim>\<open>_load_samples\<close>, lines 95 to 113. Both \<^verbatim>\<open>open\<close> calls, on line 99 and on
  line 106, open \<^verbatim>\<open>self.split_file\<close>.
\<close>

definition load_samples :: "'s world \<Rightarrow> string \<Rightarrow> string \<Rightarrow> error + string list" where
  "load_samples w root_dir split =
     (let mode = (if split = ''train'' then ''1'' else ''0'') in
      case open_readlines w (op_join root_dir [split_file]) of
        Inl e \<Rightarrow> Inl e
      | Inr lines \<Rightarrow>
     (case split_loop mode lines [] of
        Inl e \<Rightarrow> Inl e
      | Inr image_ids \<Rightarrow>
     (case open_readlines w (op_join root_dir [split_file]) of
        Inl e \<Rightarrow> Inl e
      | Inr lines' \<Rightarrow> path_loop root_dir image_ids lines' [])))"

text \<open>
  What one pass of the loop of \<^verbatim>\<open>_load_categories\<close> reads from a directory name,
  lines 121 and 122: the name is split at every dot and must give two pieces, and the
  first must be an integer literal.
\<close>

definition parse_entry :: "string \<Rightarrow> error + int \<times> string" where
  "parse_entry name =
     (case str_split_sep name (CHR ''.'') of
        [index, category] \<Rightarrow>
          (case py_int index of Inl e \<Rightarrow> Inl e | Inr i \<Rightarrow> Inr (i, category))
      | _ \<Rightarrow> Inl ValueError)"

fun categories_loop ::
  "string list \<Rightarrow> (string \<rightharpoonup> int) \<times> (int \<rightharpoonup> string)
     \<Rightarrow> error + (string \<rightharpoonup> int) \<times> (int \<rightharpoonup> string)" where
  "categories_loop [] st = Inr st"
| "categories_loop (name # sub_dirs) (category2index, index2category) =
     (case parse_entry name of
        Inl e \<Rightarrow> Inl e
      | Inr (i, category) \<Rightarrow>
          categories_loop sub_dirs
            (category2index(category \<mapsto> i - 1), index2category(i - 1 \<mapsto> category)))"

text \<open>\<^verbatim>\<open>_load_categories\<close>, lines 115 to 124.\<close>

definition load_categories ::
  "'s world \<Rightarrow> string \<Rightarrow> error + (string \<rightharpoonup> int) \<times> (int \<rightharpoonup> string)" where
  "load_categories w root_dir =
     (case os_listdir w (op_join root_dir [image_dir]) of
        Inl e \<Rightarrow> Inl e
      | Inr sub_dirs \<Rightarrow> categories_loop sub_dirs (Map.empty, Map.empty))"

text \<open>The attributes of a dataset object.\<close>

record dataset =
  self_root :: string
  self_category2index :: "string \<rightharpoonup> int"
  self_index2category :: "int \<rightharpoonup> string"
  self_samples :: "string list"

text \<open>
  The constructor, lines 84 to 90, with \<^verbatim>\<open>download\<close> left at its default
  \<^verbatim>\<open>False\<close>. (With \<^verbatim>\<open>download=True\<close> it first runs \<^verbatim>\<open>download\<close>, modelled
  below, and then goes on in the same way on the files it finds.)
\<close>

definition CUB_200_2011_init :: "'s world \<Rightarrow> string \<Rightarrow> string \<Rightarrow> error + dataset" where
  "CUB_200_2011_init w root_dir mode =
     (if mode \<notin> set [''train'', ''test''] then Inl AssertionError
      else
        (case load_categories w root_dir of
           Inl e \<Rightarrow> Inl e
         | Inr (category2index, index2category) \<Rightarrow>
        (case load_samples w root_dir mode of
           Inl e \<Rightarrow> Inl e
         | Inr samples \<Rightarrow>
             Inr \<lparr>self_root = root_dir,
                  self_category2index = category2index,
                  self_index2category = index2category,
                  self_samples = samples\<rparr>)))"

text \<open>\<^verbatim>\<open>encode_category\<close> and \<^verbatim>\<open>decode_category\<close>, lines 42 to 46.\<close>

definition encode_category :: "dataset \<Rightarrow> string \<Rightarrow> error + int" where
  "encode_category self category =
     (case self_category2index self category of
        None \<Rightarrow> Inl (KeyError category)
      | Some i \<Rightarrow> Inr i)"

definition decode_category :: "dataset \<Rightarrow> int \<Rightarrow> error + string" where
  "decode_category self index =
     (case self_index2category self index of
        None \<Rightarrow> Inl (KeyErrorInt index)
      | Some category \<Rightarrow> Inr category)"





section \<open>Example data\<close>

text \<open>A world with no file, in which no call fails and none has been made.\<close>

definition empty_world :: "'s world" where
  "empty_world =
     \<lparr>existing = {}, mkdir_fails = {}, save_error = Map.empty, gzip_error = Map.empty,
      checkpoints = Map.empty, text_files = Map.empty, listing = Map.empty, calls = []\<rparr>"

text \<open>
  Registries and a model config for the examples below: every category has one
  constructor, which returns a letter; the model constructor returns the components
  it was given. The config takes the names of the encoder and of the neck.
\<close>

definition example_registries ::
  "(unit, nat, unit, string, string \<times> string option \<times> string option \<times> string) registries" where
  "example_registries =
     \<lparr>backbone_registry = [''resnet50'' \<mapsto> (\<lambda>d. Inr ''B'')],
      encoder_registry = [''gap'' \<mapsto> (\<lambda>d. Inr ''E'')],
      neck_registry = [''mgn'' \<mapsto> (\<lambda>d. Inr ''N'')],
      head_registry = [''classifier'' \<mapsto> (\<lambda>k d. Inr ''H'')],
      criterion_registry = Map.empty,
      model_registry = [''ResNet50'' \<mapsto> (\<lambda>c b e n h cs. Inr (b, e, n, h))]\<rparr>"

definition example_model_cfg :: "string \<Rightarrow> string \<Rightarrow> (unit, nat) model_cfg" where
  "example_model_cfg encoder_name necks_name =
     \<lparr>MODEL_NAME = ''ResNet50'',
      BACKBONE_NAME = ''resnet50'', BACKBONE_ARGS = (),
      ENCODER_NAME = encoder_name, ENCODER_ARGS = (),
      NECKS_NAME = necks_name, NECKS_ARGS = (),
      HEADS_NAME = ''classifier'', HEADS_ARGS = (),
      CLASS_NUM = 200,
      CRITERIONS = []\<rparr>"

text \<open>
  A data directory under \<^verbatim>\<open>/data\<close> with two classes and two images, the first
  in the training split, and the dataset object that the constructor builds from it.
\<close>

definition example_world :: "unit world" where
  "example_world =
     \<lparr>existing = {}, mkdir_fails = {}, save_error = Map.empty, gzip_error = Map.empty,
      checkpoints = Map.empty,
      text_files =
        [''/data/CUB_200_2011/CUB_200_2011/train_test_split.txt'' \<mapsto>
           [''1 1\<newline>'', ''2 0\<newline>''],
         ''/data/CUB_200_2011/CUB_200_2011/images.txt'' \<mapsto>
           [''1 001.Black_footed_Albatross/Black_Footed_Albatross_0046_18.jpg\<newline>'',
            ''2 002.Laysan_Albatross/Laysan_Albatross_0002_1027.jpg\<newline>'']],
      listing =
        [''/data/CUB_200_2011/CUB_200_2011/images/'' \<mapsto>
           [''001.Black_footed_Albatross'', ''002.Laysan_Albatross'']],
      calls = []\<rparr>"

definition example_dataset :: dataset where
  "example_dataset =
     \<lparr>self_root = ''/data'',
      self_category2index = [''Black_footed_Albatross'' \<mapsto> 0, ''Laysan_Albatross'' \<mapsto> 1],
      self_index2category = [0 \<mapsto> ''Black_footed_Albatross'', 1 \<mapsto> ''Laysan_Albatross''],
      self_samples = [''/data/CUB_200_2011/CUB_200_2011/images/1'']\<rparr>"

text \<open>
  A data directory under \<^verbatim>\<open>d\<close> whose image directory has two entries with the
  name \<^verbatim>\<open>A\<close> and two with the index 2, and the dataset object built from it.
\<close>

definition clash_world :: "unit world" where
  "clash_world =
     \<lparr>existing = {}, mkdir_fails = {}, save_error = Map.empty, gzip_error = Map.empty,
      checkpoints = Map.empty,
      text_files = [''d/CUB_200_2011/CUB_200_2011/train_test_split.txt'' \<mapsto> []],
      listing = [''d/CUB_200_2011/CUB_200_2011/images/'' \<mapsto> [''1.A'', ''2.A'', ''02.B'']],
      calls = []\<rparr>"

definition clash_dataset :: dataset where
  "clash_dataset =
     \<lparr>self_root = ''d'',
      self_category2index = [''A'' \<mapsto> 1, ''B'' \<mapsto> 1],
      self_index2category = [0 \<mapsto> ''A'', 1 \<mapsto> ''B''],
      self_samples = []\<rparr>"

section \<open>Properties of the optimizer builder\<close>

lemma str_contains_eval:
  "str_contains n [] = True"
  "str_contains [] (a # as) = False"
  "str_contains (c # cs) (a # as) = (prefix (a # as) (c # cs) \<or> str_contains cs (a # as))"
  by (simp_all add: str_contains_def sublist_Cons_right)

lemma find_filter: "find P xs = (case filter P xs of [] \<Rightarrow> None | x # _ \<Rightarrow> Some x)"
  by (induction xs) auto

lemma attr_loop_ok:
  "list_all (\<lambda>a. lr a \<noteq> None) (filter (str_contains n) attrs) \<Longrightarrow>
   attr_loop lr n p attrs (b, acc) =
     Inr (b \<and> filter (str_contains n) attrs = [],
          acc @ map (\<lambda>a. \<lparr>group_params = p, group_lr = the (lr a)\<rparr>)
                  (filter (str_contains n) attrs))"
  by (induction attrs arbitrary: b acc) auto

lemma attr_loop_dom:
  "attr_loop lr n p attrs (b, acc) = Inr st \<Longrightarrow>
   list_all (\<lambda>a. lr a \<noteq> None) (filter (str_contains n) attrs)"
  by (induction attrs arbitrary: b acc) (auto split: if_splits option.splits)

lemma param_step_Inr:
  assumes "param_step lr np acc = Inr acc'" and "requires_grad (snd np)"
  shows "list_all (\<lambda>k. lr k \<noteq> None) (lr_keys (fst np)) \<and>
         acc' = acc @ map (\<lambda>k. \<lparr>group_params = snd np, group_lr = the (lr k)\<rparr>)
                        (lr_keys (fst np))"
proof -
  from assms obtain st
    where st: "attr_loop lr (fst np) (snd np) model_attrs (True, acc) = Inr st"
    by (auto simp: param_step_def split: sum.splits)
  have dom: "list_all (\<lambda>a. lr a \<noteq> None) (filter (str_contains (fst np)) model_attrs)"
    using attr_loop_dom [OF st] .
  note eq = attr_loop_ok [OF dom, of "snd np" True acc]
  show ?thesis
    using assms dom
    by (auto simp: param_step_def eq lr_keys_def split: option.splits if_splits)
qed

lemma param_loop_Inr:
  "param_loop lr nps acc = Inr gs \<Longrightarrow>
   gs = acc @ concat (map (\<lambda>np. map (\<lambda>k. \<lparr>group_params = snd np, group_lr = the (lr k)\<rparr>)
                                      (lr_keys (fst np)))
                         (filter (\<lambda>np. requires_grad (snd np)) nps))
   \<and> list_all (\<lambda>np. list_all (\<lambda>k. lr k \<noteq> None) (lr_keys (fst np)))
        (filter (\<lambda>np. requires_grad (snd np)) nps)"
proof (induction nps arbitrary: acc)
  case Nil
  then show ?case by simp
next
  case (Cons np nps)
  from Cons.prems obtain acc' where step: "param_step lr np acc = Inr acc'"
    and rest: "param_loop lr nps acc' = Inr gs"
    by (auto split: sum.splits)
  note ih = Cons.IH [OF rest]
  show ?case
  proof (cases "requires_grad (snd np)")
    case True
    with param_step_Inr [OF step] ih show ?thesis by simp
  next
    case False
    with step have "acc' = acc" by (simp add: param_step_def)
    with ih False show ?thesis by simp
  qed
qed

lemma param_loop_total:
  assumes "\<forall>k \<in> set (''base'' # model_attrs). lr k \<noteq> None"
  shows "\<exists>gs. param_loop lr nps acc = Inr gs"
proof (induction nps arbitrary: acc)
  case Nil
  then show ?case by simp
next
  case (Cons np nps)
  from assms have dom: "list_all (\<lambda>a. lr a \<noteq> None) (filter (str_contains (fst np)) model_attrs)"
    by (auto simp: list_all_iff)
  from assms obtain r where base: "lr ''base'' = Some r" by auto
  have "\<exists>acc'. param_step lr np acc = Inr acc'"
    by (simp add: param_step_def attr_loop_ok [OF dom] base)
  with Cons.IH show ?case by auto
qed

lemma filter_concat_own:
  assumes "distinct (map snd nps)" and "(n, p) \<in> set nps"
  shows "filter (\<lambda>g. group_params g = p)
           (concat (map (\<lambda>np. map (\<lambda>k. \<lparr>group_params = snd np, group_lr = f k\<rparr>)
                                 (ks (fst np))) nps))
         = map (\<lambda>k. \<lparr>group_params = p, group_lr = f k\<rparr>) (ks n)"
  using assms
proof (induction nps)
  case Nil
  then show ?case by simp
next
  case (Cons np nps)
  show ?case
  proof (cases "np = (n, p)")
    case True
    with Cons.prems have "\<forall>np' \<in> set nps. snd np' \<noteq> p" by force
    then have "filter (\<lambda>g. group_params g = p)
           (concat (map (\<lambda>np. map (\<lambda>k. \<lparr>group_params = snd np, group_lr = f k\<rparr>)
                                 (ks (fst np))) nps)) = []"
      by (induction nps) (auto simp: filter_empty_conv)
    with True show ?thesis by (simp add: filter_empty_conv)
  next
    case False
    with Cons.prems have in_rest: "(n, p) \<in> set nps" by simp
    from Cons.prems have dist: "distinct (map snd nps)"
      and notin: "snd np \<notin> snd ` set nps"
      by simp_all
    from in_rest have "p \<in> snd ` set nps" by force
    with notin have "snd np \<noteq> p" by auto
    with Cons.IH [OF dist in_rest] show ?thesis by (simp add: filter_empty_conv)
  qed
qed

lemma groups_of_param:
  assumes ok: "param_groups optim_cfg model = Inr gs"
    and dist: "distinct (map snd (named_parameters (unwrap model)))"
    and mem: "(n, p) \<in> set (named_parameters (unwrap model))"
    and grad: "requires_grad p"
  shows "filter (\<lambda>g. group_params g = p) gs =
           map (\<lambda>k. \<lparr>group_params = p, group_lr = the (OPTIMIZER_LR optim_cfg k)\<rparr>) (lr_keys n)"
    and "list_all (\<lambda>k. OPTIMIZER_LR optim_cfg k \<noteq> None) (lr_keys n)"
proof -
  let ?lr = "OPTIMIZER_LR optim_cfg"
  let ?nps = "filter (\<lambda>np. requires_grad (snd np)) (named_parameters (unwrap model))"
  from ok have loop: "param_loop ?lr (named_parameters (unwrap model)) [] = Inr gs"
    by (simp add: param_groups_def)
  note ch = param_loop_Inr [OF loop]
  from dist have d: "distinct (map snd ?nps)" by (rule distinct_map_filter)
  from mem grad have m: "(n, p) \<in> set ?nps" by simp
  from ch filter_concat_own [OF d m, of "\<lambda>k. the (?lr k)" lr_keys]
  show "filter (\<lambda>g. group_params g = p) gs =
           map (\<lambda>k. \<lparr>group_params = p, group_lr = the (?lr k)\<rparr>) (lr_keys n)"
    by simp
  from ch m show "list_all (\<lambda>k. ?lr k \<noteq> None) (lr_keys n)"
    by (auto simp: list_all_iff)
qed

text \<open>
  Claim C2, as the code has it. The claim says that every trainable parameter is put
  into exactly one group, that of the first tag of \<^const>\<open>model_attrs\<close> found in its
  name, or the \<^verbatim>\<open>base\<close> group if none is found. The loop has no \<^verbatim>\<open>break\<close>, so
  this holds for the names in which at most one tag is found: when
  \<^const>\<open>param_groups\<close> succeeds on a model that lists no parameter twice, a trainable
  parameter \<open>p\<close> named \<open>n\<close> with at most one tag in \<open>n\<close> has exactly one group in
  the list, with the rate of that tag, or of \<^verbatim>\<open>base\<close> when there is none.
\<close>

theorem build_optimizer_single_group:
  assumes "param_groups optim_cfg model = Inr gs"
    and "distinct (map snd (named_parameters (unwrap model)))"
    and "(n, p) \<in> set (named_parameters (unwrap model))"
    and "requires_grad p"
    and "length (filter (str_contains n) model_attrs) \<le> 1"
  shows "\<exists>r. OPTIMIZER_LR optim_cfg
               (case find (str_contains n) model_attrs of
                  None \<Rightarrow> ''base'' | Some attr \<Rightarrow> attr) = Some r
             \<and> filter (\<lambda>g. group_params g = p) gs = [\<lparr>group_params = p, group_lr = r\<rparr>]"
proof -
  let ?k = "case find (str_contains n) model_attrs of None \<Rightarrow> ''base'' | Some attr \<Rightarrow> attr"
  from assms(5) have keys: "lr_keys n = [?k]"
    by (cases "filter (str_contains n) model_attrs")
       (auto simp: lr_keys_def find_filter split: list.splits)
  from groups_of_param [OF assms(1-4)] keys show ?thesis
    by auto
qed

theorem build_optimizer_single_group_witness:
  "\<exists>r. [''backbone'' \<mapsto> 0.01, ''base'' \<mapsto> (0.001 :: real)]
          (case find (str_contains ''head.fc.weight'') model_attrs of
             None \<Rightarrow> ''base'' | Some attr \<Rightarrow> attr) = Some r
        \<and> filter (\<lambda>g. group_params g = \<lparr>tensor = (2 :: nat), requires_grad = True\<rparr>)
            [\<lparr>group_params = \<lparr>tensor = 1, requires_grad = True\<rparr>, group_lr = 0.01\<rparr>,
             \<lparr>group_params = \<lparr>tensor = 2, requires_grad = True\<rparr>, group_lr = 0.001\<rparr>]
          = [\<lparr>group_params = \<lparr>tensor = 2, requires_grad = True\<rparr>, group_lr = r\<rparr>]"
  using build_optimizer_single_group
    [of "\<lparr>OPTIMIZER_NAME = ''SGD'',
          OPTIMIZER_LR = [''backbone'' \<mapsto> 0.01, ''base'' \<mapsto> (0.001 :: real)],
          OPTIMIZER_ARGS = ()\<rparr>"
        "DataParallel (Module
           [(''backbone.conv1.weight'', \<lparr>tensor = (1 :: nat), requires_grad = True\<rparr>),
            (''head.fc.weight'', \<lparr>tensor = 2, requires_grad = True\<rparr>)])"
        "[\<lparr>group_params = \<lparr>tensor = 1, requires_grad = True\<rparr>, group_lr = 0.01\<rparr>,
          \<lparr>group_params = \<lparr>tensor = 2, requires_grad = True\<rparr>, group_lr = 0.001\<rparr>]"
        "''head.fc.weight''" "\<lparr>tensor = 2, requires_grad = True\<rparr>"]
  by (simp add: param_groups_def param_step_def model_attrs_def str_contains_eval)

text \<open>
  Claim C2 as it is stated fails: the one trainable parameter of this model has the
  tags \<^verbatim>\<open>backbone\<close> and \<^verbatim>\<open>encoder\<close> in its name and gets two groups, not one.
\<close>

theorem build_optimizer_two_groups_counterexample:
  "param_groups
     \<lparr>OPTIMIZER_NAME = ''SGD'',
      OPTIMIZER_LR = [''backbone'' \<mapsto> 0.01, ''encoder'' \<mapsto> 0.02, ''base'' \<mapsto> (0.001 :: real)],
      OPTIMIZER_ARGS = ()\<rparr>
     (Module [(''backbone.encoder.weight'', \<lparr>tensor = (0 :: nat), requires_grad = True\<rparr>)])
   = Inr [\<lparr>group_params = \<lparr>tensor = 0, requires_grad = True\<rparr>, group_lr = 0.01\<rparr>,
          \<lparr>group_params = \<lparr>tensor = 0, requires_grad = True\<rparr>, group_lr = 0.02\<rparr>]"
  by (simp add: param_groups_def param_step_def model_attrs_def str_contains_eval)

text \<open>
  Claim C3. Let \<open>m\<close> be the module that holds the parameters: the model itself, or
  the module that a \<^verbatim>\<open>DataParallel\<close> or \<^verbatim>\<open>DistributedDataParallel\<close> model wraps.
  Let \<open>m\<close> list no parameter twice, and take a trainable parameter \<open>p\<close> of \<open>m\<close>
  whose name \<open>n\<close> contains more than one tag. When \<^verbatim>\<open>LR\<close> has the five rates of
  the config, \<^const>\<open>param_groups\<close> returns a list. In every list it returns, \<open>p\<close>
  has one group per tag found in \<open>n\<close>, in the order of the tags and each with the
  rate of its tag, and no other group: none with the \<^verbatim>\<open>base\<close> rate is added. It
  returns no list only when \<^verbatim>\<open>LR\<close> lacks a rate that the loop reads, which is a
  \<^verbatim>\<open>KeyError\<close>.
\<close>

theorem build_optimizer_multi_tag:
  assumes "model = DataParallel m \<or> model = DistributedDataParallel m
             \<or> model = m \<and> m = Module nps"
    and "distinct (map snd (named_parameters m))"
    and "(n, p) \<in> set (named_parameters m)"
    and "requires_grad p"
    and "1 < length (filter (str_contains n) model_attrs)"
  shows "(set (''base'' # model_attrs) \<subseteq> dom (OPTIMIZER_LR optim_cfg) \<longrightarrow>
            (\<exists>gs. param_groups optim_cfg model = Inr gs))
       \<and> (\<forall>gs. param_groups optim_cfg model = Inr gs \<longrightarrow>
            map (\<lambda>g. Some (group_lr g)) (filter (\<lambda>g. group_params g = p) gs)
              = map (OPTIMIZER_LR optim_cfg) (filter (str_contains n) model_attrs)
            \<and> length (filter (\<lambda>g. group_params g = p) gs)
              = length (filter (str_contains n) model_attrs))"
proof (intro conjI impI allI)
  assume "set (''base'' # model_attrs) \<subseteq> dom (OPTIMIZER_LR optim_cfg)"
  then have "\<forall>k \<in> set (''base'' # model_attrs). OPTIMIZER_LR optim_cfg k \<noteq> None"
    by auto
  from param_loop_total [OF this]
  show "\<exists>gs. param_groups optim_cfg model = Inr gs"
    by (simp add: param_groups_def)
next
  fix gs
  assume ok: "param_groups optim_cfg model = Inr gs"
  from assms(1) have inner: "unwrap model = m" by auto
  note dist = assms(2) [folded inner] and mem = assms(3) [folded inner]
  from assms(5) have keys: "lr_keys n = filter (str_contains n) model_attrs"
    by (auto simp: lr_keys_def)
  from groups_of_param [OF ok dist mem assms(4)] keys
  show "map (\<lambda>g. Some (group_lr g)) (filter (\<lambda>g. group_params g = p) gs)
          = map (OPTIMIZER_LR optim_cfg) (filter (str_contains n) model_attrs)"
    by (auto simp: list_all_iff comp_def)
  from groups_of_param [OF ok dist mem assms(4)] keys
  show "length (filter (\<lambda>g. group_params g = p) gs)
          = length (filter (str_contains n) model_attrs)"
    by simp
qed

theorem build_optimizer_multi_tag_witness:
  "param_groups
     \<lparr>OPTIMIZER_NAME = ''SGD'',
      OPTIMIZER_LR = [''backbone'' \<mapsto> 0.01, ''encoder'' \<mapsto> 0.02, ''necks'' \<mapsto> 0.03,
                      ''heads'' \<mapsto> 0.04, ''base'' \<mapsto> (0.001 :: real)],
      OPTIMIZER_ARGS = ()\<rparr>
     (DataParallel
        (Module [(''backbone.encoder.weight'', \<lparr>tensor = (0 :: nat), requires_grad = True\<rparr>),
                 (''fc.bias'', \<lparr>tensor = 1, requires_grad = True\<rparr>)]))
   = Inr [\<lparr>group_params = \<lparr>tensor = 0, requires_grad = True\<rparr>, group_lr = 0.01\<rparr>,
          \<lparr>group_params = \<lparr>tensor = 0, requires_grad = True\<rparr>, group_lr = 0.02\<rparr>,
          \<lparr>group_params = \<lparr>tensor = 1, requires_grad = True\<rparr>, group_lr = 0.001\<rparr>]
   \<and> filter (str_contains ''backbone.encoder.weight'') model_attrs = [''backbone'', ''encoder'']
   \<and> map (\<lambda>g. Some (group_lr g))
       (filter (\<lambda>g. group_params g = \<lparr>tensor = (0 :: nat), requires_grad = True\<rparr>)
          [\<lparr>group_params = \<lparr>tensor = 0, requires_grad = True\<rparr>, group_lr = 0.01\<rparr>,
           \<lparr>group_params = \<lparr>tensor = 0, requires_grad = True\<rparr>, group_lr = 0.02\<rparr>,
           \<lparr>group_params = \<lparr>tensor = 1, requires_grad = True\<rparr>, group_lr = (0.001 :: real)\<rparr>])
     = [Some 0.01, Some 0.02]"
  using build_optimizer_multi_tag
    [where optim_cfg =
        "\<lparr>OPTIMIZER_NAME = ''SGD'',
          OPTIMIZER_LR = [''backbone'' \<mapsto> 0.01, ''encoder'' \<mapsto> 0.02, ''necks'' \<mapsto> 0.03,
                          ''heads'' \<mapsto> 0.04, ''base'' \<mapsto> (0.001 :: real)],
          OPTIMIZER_ARGS = ()\<rparr>"
      and model =
        "DataParallel
           (Module [(''backbone.encoder.weight'', \<lparr>tensor = (0 :: nat), requires_grad = True\<rparr>),
                    (''fc.bias'', \<lparr>tensor = 1, requires_grad = True\<rparr>)])"
      and m =
        "Module [(''backbone.encoder.weight'', \<lparr>tensor = (0 :: nat), requires_grad = True\<rparr>),
                 (''fc.bias'', \<lparr>tensor = 1, requires_grad = True\<rparr>)]"
      and n = "''backbone.encoder.weight''" and p = "\<lparr>tensor = 0, requires_grad = True\<rparr>"]
  by (simp add: param_groups_def param_step_def model_attrs_def str_contains_eval)

text \<open>
  Claim C4. With \<^verbatim>\<open>LR = {backbone: rb, base: rs}\<close> (the claim's 0.01 and 0.001, or
  any other two rates) and the trainable parameters \<^verbatim>\<open>backbone.conv1.weight\<close> and
  \<^verbatim>\<open>head.fc.weight\<close>, \<^const>\<open>build_optimizer\<close> calls the constructor registered
  under the config's \<^verbatim>\<open>NAME\<close> with the list that gives the first parameter the rate
  \<open>rb\<close> and the second the rate \<open>rs\<close>, with the base rate \<open>rs\<close>, and with the
  converted \<^verbatim>\<open>ARGS\<close>; the same holds when the model is wrapped.
\<close>

theorem build_optimizer_example:
  assumes "optimizers name = Some optimizer_builder"
  shows "build_optimizer optimizers tltd
           \<lparr>OPTIMIZER_NAME = name,
            OPTIMIZER_LR = [''backbone'' \<mapsto> rb, ''base'' \<mapsto> rs],
            OPTIMIZER_ARGS = args\<rparr>
           (Module [(''backbone.conv1.weight'', \<lparr>tensor = t1, requires_grad = True\<rparr>),
                    (''head.fc.weight'', \<lparr>tensor = t2, requires_grad = True\<rparr>)])
         = optimizer_builder
             [\<lparr>group_params = \<lparr>tensor = t1, requires_grad = True\<rparr>, group_lr = rb\<rparr>,
              \<lparr>group_params = \<lparr>tensor = t2, requires_grad = True\<rparr>, group_lr = rs\<rparr>]
             rs (tltd args)
       \<and> build_optimizer optimizers tltd
           \<lparr>OPTIMIZER_NAME = name,
            OPTIMIZER_LR = [''backbone'' \<mapsto> rb, ''base'' \<mapsto> rs],
            OPTIMIZER_ARGS = args\<rparr>
           (DataParallel
              (Module [(''backbone.conv1.weight'', \<lparr>tensor = t1, requires_grad = True\<rparr>),
                       (''head.fc.weight'', \<lparr>tensor = t2, requires_grad = True\<rparr>)]))
         = optimizer_builder
             [\<lparr>group_params = \<lparr>tensor = t1, requires_grad = True\<rparr>, group_lr = rb\<rparr>,
              \<lparr>group_params = \<lparr>tensor = t2, requires_grad = True\<rparr>, group_lr = rs\<rparr>]
             rs (tltd args)"
  using assms
  by (simp add: build_optimizer_def param_groups_def param_step_def model_attrs_def
        str_contains_eval get_def)

theorem build_optimizer_example_witness:
  "build_optimizer [''SGD'' \<mapsto> (\<lambda>params lr d. Inr (params, lr, d))] (\<lambda>args. args)
     \<lparr>OPTIMIZER_NAME = ''SGD'',
      OPTIMIZER_LR = [''backbone'' \<mapsto> 0.01, ''base'' \<mapsto> (0.001 :: real)],
      OPTIMIZER_ARGS = [(''momentum'', 0.9 :: real)]\<rparr>
     (Module [(''backbone.conv1.weight'', \<lparr>tensor = (1 :: nat), requires_grad = True\<rparr>),
              (''head.fc.weight'', \<lparr>tensor = 2, requires_grad = True\<rparr>)])
   = Inr ([\<lparr>group_params = \<lparr>tensor = 1, requires_grad = True\<rparr>, group_lr = 0.01\<rparr>,
           \<lparr>group_params = \<lparr>tensor = 2, requires_grad = True\<rparr>, group_lr = 0.001\<rparr>],
          0.001, [(''momentum'', 0.9)])"
  using build_optimizer_example
    [of "[''SGD'' \<mapsto> (\<lambda>params lr d. Inr (params, lr, d))]" "''SGD''"
        "\<lambda>params lr d. Inr (params, lr, d)" "\<lambda>args. args" "0.01 :: real" "0.001 :: real"
        "[(''momentum'', 0.9 :: real)]" "1 :: nat" "2 :: nat"]
  by simp

section \<open>Properties of the registries\<close>

lemma register_all_Inr:
  "register_all pol regs reg = Inr reg' \<Longrightarrow> reg' = reg ++ map_of (rev regs)"
proof (induction regs arbitrary: reg)
  case Nil
  then show ?case by simp
next
  case (Cons a regs)
  obtain name c where a: "a = (name, c)" by (cases a)
  from Cons.prems a obtain reg1 where r1: "register pol name c reg = Inr reg1"
    and rest: "register_all pol regs reg1 = Inr reg'"
    by (auto split: sum.splits)
  from r1 have r1': "reg1 = reg(name \<mapsto> c)"
    by (auto simp: register_def split: if_splits)
  have "map_of (rev (a # regs)) = [name \<mapsto> c] ++ map_of (rev regs)"
    by (simp add: a map_of_append)
  then have "reg ++ map_of (rev (a # regs)) = reg1 ++ map_of (rev regs)"
    by (simp add: r1' map_add_assoc [symmetric])
  with Cons.IH [OF rest] show ?case by simp
qed

lemma register_all_Reject_distinct:
  "register_all Reject regs reg = Inr reg' \<Longrightarrow>
   distinct (map fst regs) \<and> (\<forall>n \<in> fst ` set regs. reg n = None)"
proof (induction regs arbitrary: reg)
  case Nil
  then show ?case by simp
next
  case (Cons a regs)
  obtain name c where a: "a = (name, c)" by (cases a)
  from Cons.prems a have free: "reg name = None"
    and rest: "register_all Reject regs (reg(name \<mapsto> c)) = Inr reg'"
    by (auto simp: register_def split: sum.splits if_splits)
  from Cons.IH [OF rest] have d: "distinct (map fst regs)"
    and f: "\<forall>n \<in> fst ` set regs. (reg(name \<mapsto> c)) n = None" by auto
  from f have "name \<notin> fst ` set regs" by auto
  moreover from f have "\<forall>n \<in> fst ` set regs. reg n = None"
    by (auto split: if_splits)
  ultimately show ?case using a d free by auto
qed

text \<open>
  Claim C7, on the registry as the spec describes it. For the registry that a
  successful run of registrations builds from the empty one: a name that was never
  registered is refused with \<^const>\<open>NotFound\<close>; a registered name gives the
  constructor registered under it (the latest one, should the registry overwrite);
  and when a second registration of a name is refused, every registered pair is
  found again.
\<close>

theorem registry_get:
  assumes "register_all pol regs Map.empty = Inr reg"
  shows "(n \<notin> fst ` set regs \<longrightarrow> get reg n = Inl (NotFound n))
       \<and> (map_of (rev regs) n = Some c \<longrightarrow> get reg n = Inr c)
       \<and> (pol = Reject \<longrightarrow> (n, c) \<in> set regs \<longrightarrow> get reg n = Inr c)"
proof -
  from register_all_Inr [OF assms] have reg: "reg = map_of (rev regs)" by simp
  have a: "n \<notin> fst ` set regs \<longrightarrow> get reg n = Inl (NotFound n)"
  proof (intro impI)
    assume notin: "n \<notin> fst ` set regs"
    have "map_of (rev regs) n = None"
    proof (cases "map_of (rev regs) n")
      case None
      then show ?thesis .
    next
      case (Some x)
      then have "(n, x) \<in> set regs" by (auto dest: map_of_SomeD)
      then have "n \<in> fst ` set regs" by force
      with notin show ?thesis by simp
    qed
    then show "get reg n = Inl (NotFound n)" by (simp add: reg get_def)
  qed
  have b: "map_of (rev regs) n = Some c \<longrightarrow> get reg n = Inr c"
    by (simp add: reg get_def)
  have c: "pol = Reject \<longrightarrow> (n, c) \<in> set regs \<longrightarrow> get reg n = Inr c"
  proof (intro impI)
    assume "pol = Reject" and mem: "(n, c) \<in> set regs"
    with assms register_all_Reject_distinct [of regs Map.empty reg]
    have "distinct (map fst regs)" by simp
    then have "distinct (map fst (rev regs))" by (simp add: rev_map [symmetric])
    with mem have "map_of (rev regs) n = Some c" by simp
    then show "get reg n = Inr c" by (simp add: reg get_def)
  qed
  from a b c show ?thesis by blast
qed

theorem registry_get_witness:
  "get [''resnet50'' \<mapsto> (1 :: nat), ''vit'' \<mapsto> 2] ''vgg'' = Inl (NotFound ''vgg'')
   \<and> get [''resnet50'' \<mapsto> (1 :: nat), ''vit'' \<mapsto> 2] ''vit'' = Inr 2
   \<and> get [''vit'' \<mapsto> (2 :: nat)] ''vit'' = Inr 2"
  using registry_get [of Reject "[(''resnet50'', 1 :: nat), (''vit'', 2)]"
                        "[''resnet50'' \<mapsto> 1, ''vit'' \<mapsto> 2]" "''vgg''" 2]
    registry_get [of Reject "[(''resnet50'', 1 :: nat), (''vit'', 2)]"
                        "[''resnet50'' \<mapsto> 1, ''vit'' \<mapsto> 2]" "''vit''" 2]
    registry_get [of Overwrite "[(''vit'', 1 :: nat), (''vit'', 2)]"
                        "[''vit'' \<mapsto> 2]" "''vit''" 2]
  by (simp add: register_def)

section \<open>Properties of the model builder\<close>

lemma build_model_InrD:
  assumes "build_model R tltd cfg = Inr m"
  shows "\<exists>bb b e n hb h cs mb.
           backbone_registry R (BACKBONE_NAME cfg) = Some bb
         \<and> bb (tltd (BACKBONE_ARGS cfg)) = Inr b
         \<and> build_encoder R tltd cfg = Inr e
         \<and> build_necks R tltd cfg = Inr n
         \<and> head_registry R (HEADS_NAME cfg) = Some hb
         \<and> hb (CLASS_NUM cfg) (tltd (HEADS_ARGS cfg)) = Inr h
         \<and> criterions_loop R tltd (CRITERIONS cfg) [] = Inr cs
         \<and> model_registry R (MODEL_NAME cfg) = Some mb
         \<and> mb cfg b e n h cs = Inr m"
  using assms
  by (auto simp: build_model_def get_def split: sum.splits option.splits)

lemma build_encoder_InrD:
  assumes "build_encoder R tltd cfg = Inr e"
  shows "(ENCODER_NAME cfg = [] \<longrightarrow> e = None)
       \<and> (ENCODER_NAME cfg \<noteq> [] \<longrightarrow>
            (\<exists>eb enc. encoder_registry R (ENCODER_NAME cfg) = Some eb
                     \<and> eb (tltd (ENCODER_ARGS cfg)) = Inr enc \<and> e = Some enc))"
  using assms
  by (auto simp: build_encoder_def get_def split: sum.splits option.splits if_splits)

lemma build_necks_InrD:
  assumes "build_necks R tltd cfg = Inr n"
  shows "(NECKS_NAME cfg = [] \<longrightarrow> n = None)
       \<and> (NECKS_NAME cfg \<noteq> [] \<longrightarrow>
            (\<exists>nb nk. neck_registry R (NECKS_NAME cfg) = Some nb
                    \<and> nb (tltd (NECKS_ARGS cfg)) = Inr nk \<and> n = Some nk))"
  using assms
  by (auto simp: build_necks_def get_def split: sum.splits option.splits if_splits)

lemma criterions_loop_encoder_registry:
  "criterions_loop (R\<lparr>encoder_registry := reg'\<rparr>) tltd items cs = criterions_loop R tltd items cs"
  by (induction items arbitrary: cs) (auto simp: build_criterion_def split: sum.splits)

lemma criterions_loop_neck_registry:
  "criterions_loop (R\<lparr>neck_registry := reg'\<rparr>) tltd items cs = criterions_loop R tltd items cs"
  by (induction items arbitrary: cs) (auto simp: build_criterion_def split: sum.splits)

lemma build_encoder_encoder_registry:
  "ENCODER_NAME cfg = [] \<Longrightarrow>
   build_encoder (R\<lparr>encoder_registry := reg'\<rparr>) tltd cfg = build_encoder R tltd cfg"
  by (simp add: build_encoder_def)

lemma build_necks_encoder_registry:
  "build_necks (R\<lparr>encoder_registry := reg'\<rparr>) tltd cfg = build_necks R tltd cfg"
  by (simp add: build_necks_def)

lemma build_necks_neck_registry:
  "NECKS_NAME cfg = [] \<Longrightarrow>
   build_necks (R\<lparr>neck_registry := reg'\<rparr>) tltd cfg = build_necks R tltd cfg"
  by (simp add: build_necks_def)

lemma build_encoder_neck_registry:
  "build_encoder (R\<lparr>neck_registry := reg'\<rparr>) tltd cfg = build_encoder R tltd cfg"
  by (simp add: build_encoder_def)

lemma build_model_encoder_registry:
  "ENCODER_NAME cfg = [] \<Longrightarrow>
   build_model (R\<lparr>encoder_registry := reg'\<rparr>) tltd cfg = build_model R tltd cfg"
  by (simp add: build_model_def build_encoder_encoder_registry build_necks_encoder_registry
        criterions_loop_encoder_registry cong: sum.case_cong)

lemma build_model_neck_registry:
  "NECKS_NAME cfg = [] \<Longrightarrow>
   build_model (R\<lparr>neck_registry := reg'\<rparr>) tltd cfg = build_model R tltd cfg"
  by (simp add: build_model_def build_necks_neck_registry build_encoder_neck_registry
        criterions_loop_neck_registry cong: sum.case_cong)

text \<open>
  Claim C5. When \<^verbatim>\<open>ENCODER.NAME\<close> is empty, \<^const>\<open>build_model\<close> does not depend on
  the registry of encoders (it gives the same result, or the same error, whatever that
  registry holds: no encoder is looked up), and a model it returns is the result of
  the registered model constructor called with \<^verbatim>\<open>encoder=None\<close>. When the name is
  not empty, a model it returns is the result of the model constructor called with
  the encoder that the constructor registered under that name built from the
  converted \<^verbatim>\<open>ENCODER.ARGS\<close>. The same holds of \<^verbatim>\<open>NECKS.NAME\<close>, the registry of
  necks and the argument \<^verbatim>\<open>necks\<close>.
\<close>

theorem build_model_optional_parts:
  "(ENCODER_NAME cfg = [] \<longrightarrow>
      build_model (R\<lparr>encoder_registry := reg'\<rparr>) tltd cfg = build_model R tltd cfg
    \<and> (build_model R tltd cfg = Inr m \<longrightarrow>
         (\<exists>mb b n h cs. model_registry R (MODEL_NAME cfg) = Some mb
                       \<and> mb cfg b None n h cs = Inr m)))
 \<and> (ENCODER_NAME cfg \<noteq> [] \<longrightarrow> build_model R tltd cfg = Inr m \<longrightarrow>
      (\<exists>eb enc mb b n h cs.
          encoder_registry R (ENCODER_NAME cfg) = Some eb
        \<and> eb (tltd (ENCODER_ARGS cfg)) = Inr enc
        \<and> model_registry R (MODEL_NAME cfg) = Some mb
        \<and> mb cfg b (Some enc) n h cs = Inr m))
 \<and> (NECKS_NAME cfg = [] \<longrightarrow>
      build_model (R\<lparr>neck_registry := reg'\<rparr>) tltd cfg = build_model R tltd cfg
    \<and> (build_model R tltd cfg = Inr m \<longrightarrow>
         (\<exists>mb b e h cs. model_registry R (MODEL_NAME cfg) = Some mb
                       \<and> mb cfg b e None h cs = Inr m)))
 \<and> (NECKS_NAME cfg \<noteq> [] \<longrightarrow> build_model R tltd cfg = Inr m \<longrightarrow>
      (\<exists>nb nk mb b e h cs.
          neck_registry R (NECKS_NAME cfg) = Some nb
        \<and> nb (tltd (NECKS_ARGS cfg)) = Inr nk
        \<and> model_registry R (MODEL_NAME cfg) = Some mb
        \<and> mb cfg b e (Some nk) h cs = Inr m))"
proof (intro conjI impI)
  assume "ENCODER_NAME cfg = []"
  then show "build_model (R\<lparr>encoder_registry := reg'\<rparr>) tltd cfg = build_model R tltd cfg"
    by (rule build_model_encoder_registry)
next
  assume "ENCODER_NAME cfg = []" and "build_model R tltd cfg = Inr m"
  with build_model_InrD [of R tltd cfg m] build_encoder_InrD [of R tltd cfg]
  show "\<exists>mb b n h cs. model_registry R (MODEL_NAME cfg) = Some mb \<and> mb cfg b None n h cs = Inr m"
    by fastforce
next
  assume "ENCODER_NAME cfg \<noteq> []" and "build_model R tltd cfg = Inr m"
  with build_model_InrD [of R tltd cfg m] build_encoder_InrD [of R tltd cfg]
  show "\<exists>eb enc mb b n h cs.
          encoder_registry R (ENCODER_NAME cfg) = Some eb
        \<and> eb (tltd (ENCODER_ARGS cfg)) = Inr enc
        \<and> model_registry R (MODEL_NAME cfg) = Some mb
        \<and> mb cfg b (Some enc) n h cs = Inr m"
    by fastforce
next
  assume "NECKS_NAME cfg = []"
  then show "build_model (R\<lparr>neck_registry := reg'\<rparr>) tltd cfg = build_model R tltd cfg"
    by (rule build_model_neck_registry)
next
  assume "NECKS_NAME cfg = []" and "build_model R tltd cfg = Inr m"
  with build_model_InrD [of R tltd cfg m] build_necks_InrD [of R tltd cfg]
  show "\<exists>mb b e h cs. model_registry R (MODEL_NAME cfg) = Some mb \<and> mb cfg b e None h cs = Inr m"
    by fastforce
next
  assume "NECKS_NAME cfg \<noteq> []" and "build_model R tltd cfg = Inr m"
  with build_model_InrD [of R tltd cfg m] build_necks_InrD [of R tltd cfg]
  show "\<exists>nb nk mb b e h cs.
          neck_registry R (NECKS_NAME cfg) = Some nb
        \<and> nb (tltd (NECKS_ARGS cfg)) = Inr nk
        \<and> model_registry R (MODEL_NAME cfg) = Some mb
        \<and> mb cfg b e (Some nk) h cs = Inr m"
    by fastforce
qed


theorem build_model_optional_parts_witness:
  "build_model example_registries (\<lambda>a. a) (example_model_cfg [] ''mgn'')
     = Inr (''B'', None, Some ''N'', ''H'')
   \<and> build_model (example_registries\<lparr>encoder_registry := Map.empty\<rparr>) (\<lambda>a. a)
       (example_model_cfg [] ''mgn'')
     = Inr (''B'', None, Some ''N'', ''H'')
   \<and> build_model example_registries (\<lambda>a. a) (example_model_cfg ''gap'' [])
     = Inr (''B'', Some ''E'', None, ''H'')
   \<and> build_model (example_registries\<lparr>neck_registry := Map.empty\<rparr>) (\<lambda>a. a)
       (example_model_cfg ''gap'' [])
     = Inr (''B'', Some ''E'', None, ''H'')"
  using build_model_optional_parts
    [where cfg = "example_model_cfg [] ''mgn''" and R = example_registries
       and reg' = Map.empty and tltd = "\<lambda>a. a" and m = "(''B'', None, Some ''N'', ''H'')"]
    build_model_optional_parts
    [where cfg = "example_model_cfg ''gap'' []" and R = example_registries
       and reg' = Map.empty and tltd = "\<lambda>a. a" and m = "(''B'', Some ''E'', None, ''H'')"]
  by (simp add: example_registries_def example_model_cfg_def build_model_def
        build_encoder_def build_necks_def get_def)

section \<open>Properties of the checkpoint save\<close>

text \<open>
  Claim C6, as the code has it. The whole of \<^const>\<open>save_model\<close> stands under the
  test of \<^verbatim>\<open>cfg.WEIGHT.NAME\<close>; with a name that is not empty it does the
  following. When the save directory does not exist and \<^verbatim>\<open>os.mkdir\<close> raises, that
  exception is caught, the message is given to the logger, the logger is closed and
  \<^verbatim>\<open>exit()\<close> raises \<^verbatim>\<open>SystemExit\<close>, which leaves \<^const>\<open>save_model\<close>;
  \<^verbatim>\<open>torch.save\<close> is not called and no checkpoint is written. When the directory
  exists, or is created, \<^verbatim>\<open>torch.save\<close> is called on \<^verbatim>\<open>SAVE_DIR/NAME\<close>: if it
  raises, its exception leaves \<^const>\<open>save_model\<close>, no checkpoint is written and
  nothing is logged; if it returns, the state is the checkpoint at that path and the
  save is logged.
\<close>

theorem save_model_named:
  assumes "WEIGHT_NAME cfg \<noteq> []"
  shows "save_model cfg state_dict w =
    (if WEIGHT_SAVE_DIR cfg \<in> existing w then
       (case save_error w (op_join (WEIGHT_SAVE_DIR cfg) [WEIGHT_NAME cfg]) of
          Some e \<Rightarrow>
            (Raised e,
             w\<lparr>calls := calls w @
                 [PathExists (WEIGHT_SAVE_DIR cfg),
                  TorchSave state_dict (op_join (WEIGHT_SAVE_DIR cfg) [WEIGHT_NAME cfg])]\<rparr>)
        | None \<Rightarrow>
            (Returned (),
             w\<lparr>existing := insert (op_join (WEIGHT_SAVE_DIR cfg) [WEIGHT_NAME cfg]) (existing w),
               checkpoints :=
                 (checkpoints w)(op_join (WEIGHT_SAVE_DIR cfg) [WEIGHT_NAME cfg] \<mapsto> state_dict),
               calls := calls w @
                 [PathExists (WEIGHT_SAVE_DIR cfg),
                  TorchSave state_dict (op_join (WEIGHT_SAVE_DIR cfg) [WEIGHT_NAME cfg]),
                  LoggerCall (''Saving checkpoint to ''
                               @ op_join (WEIGHT_SAVE_DIR cfg) [WEIGHT_NAME cfg])]\<rparr>))
     else if WEIGHT_SAVE_DIR cfg \<in> mkdir_fails w then
       (Raised SystemExit,
        w\<lparr>calls := calls w @
            [PathExists (WEIGHT_SAVE_DIR cfg),
             Mkdir (WEIGHT_SAVE_DIR cfg),
             LoggerCall (''Cannot create save dir under '' @ WEIGHT_SAVE_DIR cfg),
             LoggerClose]\<rparr>)
     else
       (case save_error w (op_join (WEIGHT_SAVE_DIR cfg) [WEIGHT_NAME cfg]) of
          Some e \<Rightarrow>
            (Raised e,
             w\<lparr>existing := insert (WEIGHT_SAVE_DIR cfg) (existing w),
               calls := calls w @
                 [PathExists (WEIGHT_SAVE_DIR cfg),
                  Mkdir (WEIGHT_SAVE_DIR cfg),
                  TorchSave state_dict (op_join (WEIGHT_SAVE_DIR cfg) [WEIGHT_NAME cfg])]\<rparr>)
        | None \<Rightarrow>
            (Returned (),
             w\<lparr>existing := insert (op_join (WEIGHT_SAVE_DIR cfg) [WEIGHT_NAME cfg])
                             (insert (WEIGHT_SAVE_DIR cfg) (existing w)),
               checkpoints :=
                 (checkpoints w)(op_join (WEIGHT_SAVE_DIR cfg) [WEIGHT_NAME cfg] \<mapsto> state_dict),
               calls := calls w @
                 [PathExists (WEIGHT_SAVE_DIR cfg),
                  Mkdir (WEIGHT_SAVE_DIR cfg),
                  TorchSave state_dict (op_join (WEIGHT_SAVE_DIR cfg) [WEIGHT_NAME cfg]),
                  LoggerCall (''Saving checkpoint to ''
                               @ op_join (WEIGHT_SAVE_DIR cfg) [WEIGHT_NAME cfg])]\<rparr>)))"
  using assms
  by (simp add: save_model_def os_path_exists_def os_mkdir_def write_checkpoint_def
        torch_save_def logger_call_def logger_close_def record_call_def Let_def
      split: option.splits)

theorem save_model_named_witness:
  "save_model \<lparr>WEIGHT_SAVE_DIR = ''checkpoints'', WEIGHT_NAME = ''best.pth''\<rparr> (7 :: nat)
     (empty_world\<lparr>mkdir_fails := {''checkpoints''}\<rparr>)
   = (Raised SystemExit,
      empty_world
        \<lparr>mkdir_fails := {''checkpoints''},
         calls := [PathExists ''checkpoints'', Mkdir ''checkpoints'',
                   LoggerCall ''Cannot create save dir under checkpoints'', LoggerClose]\<rparr>)
   \<and> save_model \<lparr>WEIGHT_SAVE_DIR = ''checkpoints'', WEIGHT_NAME = ''best.pth''\<rparr> (7 :: nat)
       (empty_world\<lparr>existing := {''checkpoints''}\<rparr>)
   = (Returned (),
      empty_world
        \<lparr>existing := {''checkpoints/best.pth'', ''checkpoints''},
         checkpoints := [''checkpoints/best.pth'' \<mapsto> 7],
         calls := [PathExists ''checkpoints'', TorchSave 7 ''checkpoints/best.pth'',
                   LoggerCall ''Saving checkpoint to checkpoints/best.pth'']\<rparr>)
   \<and> save_model \<lparr>WEIGHT_SAVE_DIR = ''checkpoints'', WEIGHT_NAME = ''best.pth''\<rparr> (7 :: nat)
       empty_world
   = (Returned (),
      empty_world
        \<lparr>existing := {''checkpoints/best.pth'', ''checkpoints''},
         checkpoints := [''checkpoints/best.pth'' \<mapsto> 7],
         calls := [PathExists ''checkpoints'', Mkdir ''checkpoints'',
                   TorchSave 7 ''checkpoints/best.pth'',
                   LoggerCall ''Saving checkpoint to checkpoints/best.pth'']\<rparr>)
   \<and> save_model \<lparr>WEIGHT_SAVE_DIR = ''checkpoints'', WEIGHT_NAME = ''sub/best.pth''\<rparr> (7 :: nat)
       (empty_world
          \<lparr>existing := {''checkpoints''},
           save_error := [''checkpoints/sub/best.pth''
                            \<mapsto> FileNotFoundError ''checkpoints/sub/best.pth'']\<rparr>)
   = (Raised (FileNotFoundError ''checkpoints/sub/best.pth''),
      empty_world
        \<lparr>existing := {''checkpoints''},
         save_error := [''checkpoints/sub/best.pth''
                          \<mapsto> FileNotFoundError ''checkpoints/sub/best.pth''],
         calls := [PathExists ''checkpoints'', TorchSave 7 ''checkpoints/sub/best.pth'']\<rparr>)"
  using save_model_named
    [of "\<lparr>WEIGHT_SAVE_DIR = ''checkpoints'', WEIGHT_NAME = ''best.pth''\<rparr>" "7 :: nat"
        "empty_world\<lparr>mkdir_fails := {''checkpoints''}\<rparr>"]
    save_model_named
    [of "\<lparr>WEIGHT_SAVE_DIR = ''checkpoints'', WEIGHT_NAME = ''best.pth''\<rparr>" "7 :: nat"
        "empty_world\<lparr>existing := {''checkpoints''}\<rparr>"]
    save_model_named
    [of "\<lparr>WEIGHT_SAVE_DIR = ''checkpoints'', WEIGHT_NAME = ''best.pth''\<rparr>" "7 :: nat"
        empty_world]
    save_model_named
    [of "\<lparr>WEIGHT_SAVE_DIR = ''checkpoints'', WEIGHT_NAME = ''sub/best.pth''\<rparr>" "7 :: nat"
        "empty_world
           \<lparr>existing := {''checkpoints''},
            save_error := [''checkpoints/sub/best.pth''
                             \<mapsto> FileNotFoundError ''checkpoints/sub/best.pth'']\<rparr>"]
  by (simp add: empty_world_def op_join_def join_step_def startswith_def endswith_def
        suffix_to_prefix)

text \<open>
  Claim C6 as it is stated fails in three ways. With an empty name and the directory
  in place, nothing is saved or logged. With the directory in place and a name whose
  file \<^verbatim>\<open>torch.save\<close> cannot write, the exception of \<^verbatim>\<open>torch.save\<close> leaves
  \<^const>\<open>save_model\<close>: no checkpoint is written and the save is not logged. And when
  the directory cannot be created, an exception does reach the caller:
  \<^verbatim>\<open>SystemExit\<close>.
\<close>

theorem save_model_counterexample:
  "save_model \<lparr>WEIGHT_SAVE_DIR = ''checkpoints'', WEIGHT_NAME = []\<rparr> (7 :: nat)
     (empty_world\<lparr>existing := {''checkpoints''}\<rparr>)
   = (Returned (), empty_world\<lparr>existing := {''checkpoints''}\<rparr>)
   \<and> fst (save_model \<lparr>WEIGHT_SAVE_DIR = ''checkpoints'', WEIGHT_NAME = ''sub/best.pth''\<rparr>
            (7 :: nat)
            (empty_world
               \<lparr>existing := {''checkpoints''},
                save_error := [''checkpoints/sub/best.pth''
                                 \<mapsto> FileNotFoundError ''checkpoints/sub/best.pth'']\<rparr>))
     = Raised (FileNotFoundError ''checkpoints/sub/best.pth'')
   \<and> checkpoints
       (snd (save_model \<lparr>WEIGHT_SAVE_DIR = ''checkpoints'', WEIGHT_NAME = ''sub/best.pth''\<rparr>
               (7 :: nat)
               (empty_world
                  \<lparr>existing := {''checkpoints''},
                   save_error := [''checkpoints/sub/best.pth''
                                    \<mapsto> FileNotFoundError ''checkpoints/sub/best.pth'']\<rparr>)))
     = Map.empty
   \<and> calls
       (snd (save_model \<lparr>WEIGHT_SAVE_DIR = ''checkpoints'', WEIGHT_NAME = ''sub/best.pth''\<rparr>
               (7 :: nat)
               (empty_world
                  \<lparr>existing := {''checkpoints''},
                   save_error := [''checkpoints/sub/best.pth''
                                    \<mapsto> FileNotFoundError ''checkpoints/sub/best.pth'']\<rparr>)))
     = [PathExists ''checkpoints'', TorchSave 7 ''checkpoints/sub/best.pth'']
   \<and> fst (save_model \<lparr>WEIGHT_SAVE_DIR = ''checkpoints'', WEIGHT_NAME = ''best.pth''\<rparr>
            (7 :: nat) (empty_world\<lparr>mkdir_fails := {''checkpoints''}\<rparr>))
     = Raised SystemExit"
  by (simp add: empty_world_def save_model_def os_path_exists_def os_mkdir_def
        write_checkpoint_def torch_save_def logger_call_def logger_close_def record_call_def
        op_join_def join_step_def startswith_def endswith_def suffix_to_prefix Let_def)

text \<open>
  Claim C9. When \<^verbatim>\<open>cfg.WEIGHT.NAME\<close> is empty, \<^const>\<open>save_model\<close> returns and
  leaves the world as it was: it makes no call at all, so no directory is looked for
  or made, nothing is saved and nothing is logged.
\<close>

theorem save_model_unnamed:
  assumes "WEIGHT_NAME cfg = []"
  shows "save_model cfg state_dict w = (Returned (), w)"
  using assms by (simp add: save_model_def)

theorem save_model_unnamed_witness:
  "save_model \<lparr>WEIGHT_SAVE_DIR = ''out'', WEIGHT_NAME = []\<rparr> (3 :: nat)
     (empty_world\<lparr>mkdir_fails := {''out''}, calls := [Print ''start'']\<rparr>)
   = (Returned (), empty_world\<lparr>mkdir_fails := {''out''}, calls := [Print ''start'']\<rparr>)"
  using save_model_unnamed
    [of "\<lparr>WEIGHT_SAVE_DIR = ''out'', WEIGHT_NAME = []\<rparr>" "3 :: nat"
        "empty_world\<lparr>mkdir_fails := {''out''}, calls := [Print ''start'']\<rparr>"]
  by simp

section \<open>Properties of the download\<close>









section \<open>Properties of the dataset\<close>

lemma categories_loop_ok:
  "map parse_entry sub_dirs = map Inr ents \<Longrightarrow>
   categories_loop sub_dirs (c2i, i2c) =
     Inr (c2i ++ map_of (rev (map (\<lambda>e. (snd e, fst e - 1)) ents)),
          i2c ++ map_of (rev (map (\<lambda>e. (fst e - 1, snd e)) ents)))"
proof (induction sub_dirs arbitrary: ents c2i i2c)
  case Nil
  then show ?case by simp
next
  case (Cons name sub_dirs)
  from Cons.prems obtain e rest where ents: "ents = e # rest"
    and pe: "parse_entry name = Inr e"
    and pr: "map parse_entry sub_dirs = map Inr rest"
    by (cases ents) auto
  obtain i c where e: "e = (i, c)" by (cases e)
  have a: "c2i ++ map_of (rev (map (\<lambda>e. (snd e, fst e - 1)) ents))
         = c2i(c \<mapsto> i - 1) ++ map_of (rev (map (\<lambda>e. (snd e, fst e - 1)) rest))"
    by (simp add: ents e map_of_append map_add_assoc [symmetric])
  have b: "i2c ++ map_of (rev (map (\<lambda>e. (fst e - 1, snd e)) ents))
         = i2c(i - 1 \<mapsto> c) ++ map_of (rev (map (\<lambda>e. (fst e - 1, snd e)) rest))"
    by (simp add: ents e map_of_append map_add_assoc [symmetric])
  have "categories_loop (name # sub_dirs) (c2i, i2c)
          = categories_loop sub_dirs (c2i(c \<mapsto> i - 1), i2c(i - 1 \<mapsto> c))"
    by (simp add: pe e)
  also have "\<dots> = Inr (c2i(c \<mapsto> i - 1) ++ map_of (rev (map (\<lambda>e. (snd e, fst e - 1)) rest)),
                      i2c(i - 1 \<mapsto> c) ++ map_of (rev (map (\<lambda>e. (fst e - 1, snd e)) rest)))"
    by (rule Cons.IH [OF pr])
  finally show ?case by (simp only: a b)
qed

lemma map_of_rev_distinct:
  assumes "distinct (map fst xs)" and "(k, v) \<in> set xs"
  shows "map_of (rev xs) k = Some v"
proof -
  from assms(1) have "distinct (map fst (rev xs))" by (simp add: rev_map [symmetric])
  moreover from assms(2) have "(k, v) \<in> set (rev xs)" by simp
  ultimately show ?thesis by (rule map_of_is_SomeI)
qed

lemma init_categories:
  assumes "CUB_200_2011_init w root_dir mode = Inr self"
  shows "load_categories w root_dir = Inr (self_category2index self, self_index2category self)"
  using assms
  by (auto simp: CUB_200_2011_init_def split: if_splits sum.splits prod.splits)

text \<open>
  Claim C10, as the code has it. The loop of \<^verbatim>\<open>_load_categories\<close> overwrites what
  an earlier entry stored under the same name or the same index, so the two
  dictionaries are inverse to each other when no two entries share a name or an
  index. For a dataset built over an image directory whose entries all have the form
  \<^verbatim>\<open><index>.<name>\<close> (\<open>ents\<close> lists their indices and names), with the indices
  pairwise distinct and the names pairwise distinct: every entry's name is encoded as
  its index minus one, that number is decoded as the name, and decoding the code of
  any category of the index gives the category back.
\<close>

theorem category_index_roundtrip:
  assumes init: "CUB_200_2011_init w root_dir mode = Inr self"
    and ls: "listing w (op_join root_dir [image_dir]) = Some sub_dirs"
    and parse: "map parse_entry sub_dirs = map Inr ents"
    and di: "distinct (map fst ents)"
    and dc: "distinct (map snd ents)"
  shows "(\<forall>e \<in> set ents. encode_category self (snd e) = Inr (fst e - 1)
                         \<and> decode_category self (fst e - 1) = Inr (snd e))
       \<and> (\<forall>c \<in> dom (self_category2index self).
             \<exists>k. encode_category self c = Inr k \<and> decode_category self k = Inr c)"
proof -
  let ?ci = "map (\<lambda>e. (snd e, fst e - 1)) ents"
  let ?ic = "map (\<lambda>e. (fst e - 1, snd e)) ents"
  from init_categories [OF init] ls categories_loop_ok [OF parse, of Map.empty Map.empty]
  have c2i: "self_category2index self = map_of (rev ?ci)"
    and i2c: "self_index2category self = map_of (rev ?ic)"
    by (simp_all add: load_categories_def os_listdir_def)
  have dci: "distinct (map fst ?ci)" using dc by (simp add: comp_def)
  have "inj (\<lambda>i :: int. i - 1)" by (simp add: inj_def)
  then have dic: "distinct (map fst ?ic)"
    using di by (simp add: comp_def distinct_map inj_on_def)
  have entry: "encode_category self (snd e) = Inr (fst e - 1)
             \<and> decode_category self (fst e - 1) = Inr (snd e)" if "e \<in> set ents" for e
  proof -
    from that have m1: "(snd e, fst e - 1) \<in> set ?ci"
      and m2: "(fst e - 1, snd e) \<in> set ?ic"
      by auto
    have "map_of (rev ?ci) (snd e) = Some (fst e - 1)"
      by (rule map_of_rev_distinct [OF dci m1])
    moreover have "map_of (rev ?ic) (fst e - 1) = Some (snd e)"
      by (rule map_of_rev_distinct [OF dic m2])
    ultimately show ?thesis by (simp add: encode_category_def decode_category_def c2i i2c)
  qed
  have round: "\<exists>k. encode_category self c = Inr k \<and> decode_category self k = Inr c"
    if "c \<in> dom (self_category2index self)" for c
  proof -
    from that obtain k where "map_of (rev ?ci) c = Some k" by (auto simp: c2i)
    then have "(c, k) \<in> set ?ci" by (auto dest: map_of_SomeD)
    then obtain e where "e \<in> set ents" and "c = snd e" by auto
    with entry [of e] show ?thesis by auto
  qed
  from entry round show ?thesis by blast
qed


lemma eval_paths:
  "op_join a [] = a"
  "op_join a (b # bs) = op_join (join_step a b) bs"
  by (simp_all add: op_join_def)

theorem category_index_roundtrip_witness:
  "CUB_200_2011_init example_world ''/data'' ''train'' = Inr example_dataset
   \<and> map parse_entry [''001.Black_footed_Albatross'', ''002.Laysan_Albatross'']
       = map Inr [(1, ''Black_footed_Albatross''), (2, ''Laysan_Albatross'')]
   \<and> encode_category example_dataset ''Laysan_Albatross'' = Inr 1
   \<and> decode_category example_dataset 1 = Inr ''Laysan_Albatross''"
  using category_index_roundtrip
    [of example_world "''/data''" "''train''" example_dataset
        "[''001.Black_footed_Albatross'', ''002.Laysan_Albatross'']"
        "[(1, ''Black_footed_Albatross''), (2, ''Laysan_Albatross'')]"]
  by (simp add: example_world_def example_dataset_def
        CUB_200_2011_init_def load_categories_def os_listdir_def parse_entry_def
        str_split_sep_def py_int_def int_strip_def int_space_def parse_digits_def digit_of_def
        load_samples_def open_readlines_def eval_paths join_step_def startswith_def
        endswith_def suffix_to_prefix split_file_def image_dir_def str_split_def isspace_def
        encode_category_def decode_category_def)

text \<open>
  Claim C10 as it is stated fails: every entry of this image directory has the form
  \<^verbatim>\<open><index>.<name>\<close>, yet the entry \<^verbatim>\<open>1.A\<close> has its name encoded as 1, not as
  0, and decoding that code gives \<^verbatim>\<open>B\<close>.
\<close>

theorem category_index_clash_counterexample:
  "CUB_200_2011_init clash_world ''d'' ''train'' = Inr clash_dataset
   \<and> map parse_entry [''1.A'', ''2.A'', ''02.B''] = map Inr [(1, ''A''), (2, ''A''), (2, ''B'')]
   \<and> encode_category clash_dataset ''A'' = Inr 1
   \<and> decode_category clash_dataset 1 = Inr ''B''"
  by (simp add: clash_world_def clash_dataset_def
        CUB_200_2011_init_def load_categories_def os_listdir_def parse_entry_def
        str_split_sep_def py_int_def int_strip_def int_space_def parse_digits_def digit_of_def
        load_samples_def open_readlines_def eval_paths join_step_def startswith_def
        endswith_def suffix_to_prefix split_file_def image_dir_def str_split_def isspace_def
        encode_category_def decode_category_def)

text \<open>
  Claim C1 fails on the code. The split file pairs image 1 with the flag 1 and image 2
  with the flag 0, and the images-list file gives image 1 the path
  \<^verbatim>\<open>001.Black_footed_Albatross/Black_Footed_Albatross_0046_18.jpg\<close>. The sample list
  has one entry, but it is the image directory joined with the flag \<^verbatim>\<open>1\<close>: the
  second loop reads the split file again, and the images-list file is never opened.
\<close>

theorem load_samples_reads_split_file_twice:
  "load_samples example_world ''/data'' ''train''
     = Inr [''/data/CUB_200_2011/CUB_200_2011/images/1'']
   \<and> map_sum id self_samples (CUB_200_2011_init example_world ''/data'' ''train'')
     = Inr [''/data/CUB_200_2011/CUB_200_2011/images/1'']
   \<and> load_samples (example_world\<lparr>text_files :=
         (text_files example_world)(''/data/CUB_200_2011/CUB_200_2011/images.txt'' := None)\<rparr>)
       ''/data'' ''train''
     = Inr [''/data/CUB_200_2011/CUB_200_2011/images/1'']"
  by (simp add: example_world_def
        CUB_200_2011_init_def load_categories_def os_listdir_def parse_entry_def
        str_split_sep_def py_int_def int_strip_def int_space_def parse_digits_def digit_of_def
        load_samples_def open_readlines_def eval_paths join_step_def startswith_def
        endswith_def suffix_to_prefix split_file_def image_dir_def str_split_def isspace_def)

end
